theory Spec2Isabelle
  imports Complex_Main "HOL-Library.Multiset"
begin

section \<open>JavaScript numbers\<close>

text \<open>
  The chart computes with JavaScript numbers, the binary64 format. A division by zero
  does not raise there: it yields \<open>NaN\<close> or an infinity, which then flows through the
  rest of the arithmetic and through every comparison; and a result too large for the
  format becomes an infinity. The model keeps both: a number is a finite real or one of
  the three special values, and every arithmetic result passes through \<open>fromReal\<close>,
  which overflows where binary64 does: at \<open>2^1024 - 2^970\<close>, halfway between the largest
  finite number and \<open>2^1024\<close>.

  What the model leaves out is the rounding of finite results to the nearest binary64
  number: a finite result is the exact real. The statements proved below are chosen so
  that they do not rest on it: they use that the operations are monotone, that
  \<open>0 / x = 0\<close> and \<open>x / x = 1\<close>, that \<open>x - x = 0\<close>, and the values of special results,
  all of which rounding to nearest preserves. The two zeros are identified: every zero
  divisor of the chart is a difference \<open>x - x\<close>, which is \<open>+0\<close>.
\<close>

datatype jsnum = Fin real | PInf | NInf | NaN

definition overflowThreshold :: real where
  "overflowThreshold = 2 ^ 1024 - 2 ^ 970"

definition fromReal :: "real \<Rightarrow> jsnum" where
  "fromReal x =
     (if overflowThreshold \<le> x then PInf
      else if x \<le> - overflowThreshold then NInf
      else Fin x)"

fun js_neg :: "jsnum \<Rightarrow> jsnum" where
  "js_neg (Fin a) = Fin (- a)"
| "js_neg PInf = NInf"
| "js_neg NInf = PInf"
| "js_neg NaN = NaN"

fun js_add :: "jsnum \<Rightarrow> jsnum \<Rightarrow> jsnum" where
  "js_add (Fin a) (Fin b) = fromReal (a + b)"
| "js_add NaN _ = NaN"
| "js_add _ NaN = NaN"
| "js_add PInf NInf = NaN"
| "js_add NInf PInf = NaN"
| "js_add PInf _ = PInf"
| "js_add _ PInf = PInf"
| "js_add NInf _ = NInf"
| "js_add _ NInf = NInf"

fun js_mul :: "jsnum \<Rightarrow> jsnum \<Rightarrow> jsnum" where
  "js_mul (Fin a) (Fin b) = fromReal (a * b)"
| "js_mul NaN _ = NaN"
| "js_mul _ NaN = NaN"
| "js_mul PInf (Fin b) = (if b = 0 then NaN else if 0 < b then PInf else NInf)"
| "js_mul NInf (Fin b) = (if b = 0 then NaN else if 0 < b then NInf else PInf)"
| "js_mul (Fin a) PInf = (if a = 0 then NaN else if 0 < a then PInf else NInf)"
| "js_mul (Fin a) NInf = (if a = 0 then NaN else if 0 < a then NInf else PInf)"
| "js_mul PInf PInf = PInf"
| "js_mul PInf NInf = NInf"
| "js_mul NInf PInf = NInf"
| "js_mul NInf NInf = PInf"

fun js_div :: "jsnum \<Rightarrow> jsnum \<Rightarrow> jsnum" where
  "js_div (Fin a) (Fin b) =
     (if b \<noteq> 0 then fromReal (a / b)
      else if a = 0 then NaN
      else if 0 < a then PInf else NInf)"
| "js_div NaN _ = NaN"
| "js_div _ NaN = NaN"
| "js_div (Fin a) PInf = Fin 0"
| "js_div (Fin a) NInf = Fin 0"
| "js_div PInf (Fin b) = (if 0 \<le> b then PInf else NInf)"
| "js_div NInf (Fin b) = (if 0 \<le> b then NInf else PInf)"
| "js_div PInf PInf = NaN"
| "js_div PInf NInf = NaN"
| "js_div NInf PInf = NaN"
| "js_div NInf NInf = NaN"

text \<open>The relational operators: every comparison with \<open>NaN\<close> is false.\<close>

fun js_lt :: "jsnum \<Rightarrow> jsnum \<Rightarrow> bool" where
  "js_lt (Fin a) (Fin b) = (a < b)"
| "js_lt NaN _ = False"
| "js_lt _ NaN = False"
| "js_lt _ NInf = False"
| "js_lt PInf _ = False"
| "js_lt NInf _ = True"
| "js_lt _ PInf = True"

fun js_le :: "jsnum \<Rightarrow> jsnum \<Rightarrow> bool" where
  "js_le (Fin a) (Fin b) = (a \<le> b)"
| "js_le NaN _ = False"
| "js_le _ NaN = False"
| "js_le NInf _ = True"
| "js_le _ PInf = True"
| "js_le _ NInf = False"
| "js_le PInf _ = False"

instantiation jsnum :: "{plus, minus, uminus, times, inverse, ord}"
begin

definition plus_jsnum :: "jsnum \<Rightarrow> jsnum \<Rightarrow> jsnum" where
  "plus_jsnum a b = js_add a b"

definition uminus_jsnum :: "jsnum \<Rightarrow> jsnum" where
  "uminus_jsnum a = js_neg a"

definition minus_jsnum :: "jsnum \<Rightarrow> jsnum \<Rightarrow> jsnum" where
  "minus_jsnum a b = js_add a (js_neg b)"

definition times_jsnum :: "jsnum \<Rightarrow> jsnum \<Rightarrow> jsnum" where
  "times_jsnum a b = js_mul a b"

definition divide_jsnum :: "jsnum \<Rightarrow> jsnum \<Rightarrow> jsnum" where
  "divide_jsnum a b = js_div a b"

definition inverse_jsnum :: "jsnum \<Rightarrow> jsnum" where
  "inverse_jsnum a = js_div (Fin 1) a"

definition less_jsnum :: "jsnum \<Rightarrow> jsnum \<Rightarrow> bool" where
  "less_jsnum a b = js_lt a b"

definition less_eq_jsnum :: "jsnum \<Rightarrow> jsnum \<Rightarrow> bool" where
  "less_eq_jsnum a b = js_le a b"

instance ..

end

text \<open>
  \<open>Math.min(...xs)\<close> and \<open>Math.max(...xs)\<close>: with no argument the results are
  \<open>+Infinity\<close> and \<open>-Infinity\<close>; a \<open>NaN\<close> argument makes the result \<open>NaN\<close>.
\<close>

definition js_min2 :: "jsnum \<Rightarrow> jsnum \<Rightarrow> jsnum" where
  "js_min2 a b = (if a = NaN \<or> b = NaN then NaN else if b < a then b else a)"

definition js_max2 :: "jsnum \<Rightarrow> jsnum \<Rightarrow> jsnum" where
  "js_max2 a b = (if a = NaN \<or> b = NaN then NaN else if a < b then b else a)"

definition mathMin :: "jsnum list \<Rightarrow> jsnum" where
  "mathMin xs = foldl js_min2 PInf xs"

definition mathMax :: "jsnum list \<Rightarrow> jsnum" where
  "mathMax xs = foldl js_max2 NInf xs"

text \<open>\<open>Math.round\<close> rounds to the nearest integer, a tie towards \<open>+Infinity\<close>.\<close>

fun mathRound :: "jsnum \<Rightarrow> jsnum" where
  "mathRound (Fin a) = Fin (of_int \<lfloor>a + 1 / 2\<rfloor>)"
| "mathRound x = x"

text \<open>
  \<open>x.toFixed(0)\<close> prints the nearest integer, a tie away from zero; the model keeps the
  number whose digits are printed.
\<close>

fun toFixed0 :: "jsnum \<Rightarrow> jsnum" where
  "toFixed0 (Fin a) =
     (if a < 0 then Fin (- of_int \<lfloor>- a + 1 / 2\<rfloor>) else Fin (of_int \<lfloor>a + 1 / 2\<rfloor>))"
| "toFixed0 x = x"

section \<open>The data\<close>

text \<open>
  \<open>interface WellDataPoint { depth: number; rockComposition: string; DT: number; GR: number }\<close>.
  The measurements handed to the chart are finite numbers, so the fields are reals;
  what the chart computes from them is a \<open>jsnum\<close>.
\<close>

record WellDataPoint =
  depth :: real
  rockComposition :: string
  DT :: real
  GR :: real

section \<open>Sorting by depth\<close>

text \<open>
  \<open>[...data].sort((a, b) => a.depth - b.depth)\<close>. The language fixes
  \<open>Array.prototype.sort\<close> as a stable sort (ECMAScript 2019), and with a consistent
  comparator every stable sort returns the same array, so an insertion sort that moves an
  element only past elements the comparator puts strictly before it stands for it. The
  copy \<open>[...data]\<close> is the fresh list.
\<close>

definition compareDepth :: "WellDataPoint \<Rightarrow> WellDataPoint \<Rightarrow> real" where
  "compareDepth a b = depth a - depth b"

fun insertSorted :: "('a \<Rightarrow> 'a \<Rightarrow> real) \<Rightarrow> 'a \<Rightarrow> 'a list \<Rightarrow> 'a list" where
  "insertSorted cmp x [] = [x]"
| "insertSorted cmp x (y # ys) =
     (if cmp x y \<le> 0 then x # y # ys else y # insertSorted cmp x ys)"

definition arraySort :: "('a \<Rightarrow> 'a \<Rightarrow> real) \<Rightarrow> 'a list \<Rightarrow> 'a list" where
  "arraySort cmp xs = foldr (insertSorted cmp) xs []"

definition sortedData :: "WellDataPoint list \<Rightarrow> WellDataPoint list" where
  "sortedData data = arraySort compareDepth data"

section \<open>Ranges\<close>

text \<open>All of these are computed from the sorted array \<open>sd\<close>.\<close>

definition minDepth :: "WellDataPoint list \<Rightarrow> jsnum" where
  "minDepth sd = mathMin (map (\<lambda>d. Fin (depth d)) sd)"

definition maxDepth :: "WellDataPoint list \<Rightarrow> jsnum" where
  "maxDepth sd = mathMax (map (\<lambda>d. Fin (depth d)) sd)"

definition depthRange :: "WellDataPoint list \<Rightarrow> jsnum" where
  "depthRange sd = maxDepth sd - minDepth sd"

definition minDT :: "WellDataPoint list \<Rightarrow> jsnum" where
  "minDT sd = mathMin (map (\<lambda>d. Fin (DT d)) sd)"

definition maxDT :: "WellDataPoint list \<Rightarrow> jsnum" where
  "maxDT sd = mathMax (map (\<lambda>d. Fin (DT d)) sd)"

definition minGR :: "WellDataPoint list \<Rightarrow> jsnum" where
  "minGR sd = mathMin (map (\<lambda>d. Fin (GR d)) sd)"

definition maxGR :: "WellDataPoint list \<Rightarrow> jsnum" where
  "maxGR sd = mathMax (map (\<lambda>d. Fin (GR d)) sd)"

section \<open>Plot geometry and scales\<close>

definition chartHeight :: real where "chartHeight = 600"
definition chartWidth :: real where "chartWidth = 900"
definition padding_top :: real where "padding_top = 40"
definition padding_right :: real where "padding_right = 40"
definition padding_bottom :: real where "padding_bottom = 60"
definition padding_left :: real where "padding_left = 80"

definition plotHeight :: real where
  "plotHeight = chartHeight - padding_top - padding_bottom"

definition plotWidth :: real where
  "plotWidth = chartWidth - padding_left - padding_right"

definition columnWidth :: real where
  "columnWidth = plotWidth / 3"

definition scaleDepth :: "WellDataPoint list \<Rightarrow> jsnum \<Rightarrow> jsnum" where
  "scaleDepth sd d = Fin padding_top + ((d - minDepth sd) / depthRange sd) * Fin plotHeight"

definition scaleDT :: "WellDataPoint list \<Rightarrow> jsnum \<Rightarrow> jsnum" where
  "scaleDT sd v =
     Fin padding_left + Fin columnWidth * Fin 0.1
       + ((v - minDT sd) / (maxDT sd - minDT sd)) * (Fin columnWidth * Fin 0.8)"

definition scaleGR :: "WellDataPoint list \<Rightarrow> jsnum \<Rightarrow> jsnum" where
  "scaleGR sd v =
     Fin padding_left + Fin columnWidth * Fin 2.1
       + ((v - minGR sd) / (maxGR sd - minGR sd)) * (Fin columnWidth * Fin 0.8)"

section \<open>Colour assignment\<close>

text \<open>
  \<open>Array.from(new Set(xs))\<close>: a set keeps its elements in insertion order and ignores
  the insertion of an element it already has, so the array lists the distinct elements
  in the order of their first occurrence.
\<close>

definition setAdd :: "'a list \<Rightarrow> 'a \<Rightarrow> 'a list" where
  "setAdd s x = (if x \<in> set s then s else s @ [x])"

definition arrayFromSet :: "'a list \<Rightarrow> 'a list" where
  "arrayFromSet xs = foldl setAdd [] xs"

definition rockTypes :: "WellDataPoint list \<Rightarrow> string list" where
  "rockTypes sd = arrayFromSet (map rockComposition sd)"

definition colors :: "string list" where
  "colors =
     [''#8b5cf6'', ''#ec4899'', ''#f59e0b'', ''#10b981'', ''#3b82f6'',
      ''#ef4444'', ''#14b8a6'', ''#f97316'', ''#a855f7'', ''#06b6d4'']"

text \<open>
  \<open>colorMap\<close> is a plain object (\<open>{}\<close>) used as a dictionary, so its prototype is
  \<open>Object.prototype\<close>. The model is the map of its own properties together with the two
  operations of the language on it.

  Reading \<open>colorMap[k]\<close> gives the own property when there is one; otherwise the lookup
  continues in \<open>Object.prototype\<close>, whose members are objects (built-in functions, and
  for \<open>__proto__\<close> the prototype itself), and gives \<open>undefined\<close> when the name is not
  there either.

  Writing \<open>colorMap[k] = v\<close> creates or updates the own property, except for the name
  \<open>__proto__\<close>: that one is an accessor of \<open>Object.prototype\<close>, whose setter is called
  instead and ignores a value that is neither an object nor \<open>null\<close>, so that a string
  stored under \<open>__proto__\<close> is dropped. The other members of \<open>Object.prototype\<close> are
  writable data properties and are shadowed by the write.
\<close>

datatype jsval = JString string | JInherited string | JUndefined

definition objectPrototypeNames :: "string list" where
  "objectPrototypeNames =
     [''__proto__'', ''constructor'', ''hasOwnProperty'', ''isPrototypeOf'',
      ''propertyIsEnumerable'', ''toLocaleString'', ''toString'', ''valueOf'',
      ''__defineGetter__'', ''__defineSetter__'', ''__lookupGetter__'', ''__lookupSetter__'']"

definition propertySet :: "(string \<rightharpoonup> string) \<Rightarrow> string \<Rightarrow> string \<Rightarrow> (string \<rightharpoonup> string)" where
  "propertySet m k v = (if k = ''__proto__'' then m else m(k \<mapsto> v))"

definition propertyGet :: "(string \<rightharpoonup> string) \<Rightarrow> string \<Rightarrow> jsval" where
  "propertyGet m k =
     (case m k of
        Some v \<Rightarrow> JString v
      | None \<Rightarrow> if k \<in> set objectPrototypeNames then JInherited k else JUndefined)"

text \<open>\<open>a || b\<close> is \<open>a\<close> when \<open>a\<close> is truthy: the empty string and \<open>undefined\<close> are not.\<close>

fun truthy :: "jsval \<Rightarrow> bool" where
  "truthy (JString s) = (s \<noteq> [])"
| "truthy (JInherited n) = True"
| "truthy JUndefined = False"

definition js_or :: "jsval \<Rightarrow> jsval \<Rightarrow> jsval" where
  "js_or a b = (if truthy a then a else b)"

text \<open>
  \<open>rockTypes.forEach((rock, i) => { colorMap[rock] = colors[i % colors.length]; })\<close>,
  started with the empty object and the index 0.
\<close>

fun forEachRock :: "(string \<rightharpoonup> string) \<Rightarrow> nat \<Rightarrow> string list \<Rightarrow> (string \<rightharpoonup> string)" where
  "forEachRock m i [] = m"
| "forEachRock m i (rock # rest) =
     forEachRock (propertySet m rock (colors ! (i mod length colors))) (Suc i) rest"

definition colorMap :: "WellDataPoint list \<Rightarrow> (string \<rightharpoonup> string)" where
  "colorMap sd = forEachRock Map.empty 0 (rockTypes sd)"

section \<open>The tracks\<close>

text \<open>
  One \<open><rect>\<close> per measurement of the sorted array, with its \<open><text>\<close> when the
  bar is high enough. For the bar of index \<open>i\<close> the code computes \<open>y1\<close>, the scaled depth
  of its measurement, and \<open>y2\<close>, the scaled depth of the next measurement;
  \<open>sortedData[i + 1]\<close> past the end is \<open>undefined\<close>, which is falsy, so for the last bar
  \<open>y2\<close> is \<open>chartHeight - padding.bottom\<close>. The rectangle is drawn with \<open>y = y1\<close> and
  \<open>height = y2 - y1\<close>. The horizontal position and width of every bar are the constants
  \<open>rockBar_x\<close> and \<open>rockBar_width\<close>.
\<close>

definition rockBar_x :: real where
  "rockBar_x = padding_left + columnWidth * 0.1"

definition rockBar_width :: real where
  "rockBar_width = columnWidth * 0.8"

record rockBar =
  bar_y :: jsnum
  bar_height :: jsnum
  bar_fill :: jsval
  bar_text :: "(jsnum \<times> string) option"

definition rockBar_y2 :: "WellDataPoint list \<Rightarrow> nat \<Rightarrow> jsnum" where
  "rockBar_y2 sd i =
     (if i + 1 < length sd then scaleDepth sd (Fin (depth (sd ! (i + 1))))
      else Fin chartHeight - Fin padding_bottom)"

definition rockBarAt :: "WellDataPoint list \<Rightarrow> nat \<Rightarrow> rockBar" where
  "rockBarAt sd i =
     (let point = sd ! i;
          y1 = scaleDepth sd (Fin (depth point));
          y2 = rockBar_y2 sd i;
          barHeight = y2 - y1
      in \<lparr> bar_y = y1,
           bar_height = barHeight,
           bar_fill = js_or (propertyGet (colorMap sd) (rockComposition point)) (JString ''#64748b''),
           bar_text = (if Fin 20 < barHeight
                       then Some (y1 + barHeight / Fin 2, rockComposition point)
                       else None) \<rparr>)"

definition rockBars :: "WellDataPoint list \<Rightarrow> rockBar list" where
  "rockBars sd = map (rockBarAt sd) [0..<length sd]"


text \<open>The grid: \<open>depthTicks + 1\<close> lines, each with the rounded depth as its label.\<close>

definition depthTicks :: nat where "depthTicks = 10"

definition depthTickInterval :: "WellDataPoint list \<Rightarrow> jsnum" where
  "depthTickInterval sd = depthRange sd / Fin (real depthTicks)"

definition gridLineAt :: "WellDataPoint list \<Rightarrow> nat \<Rightarrow> jsnum \<times> jsnum" where
  "gridLineAt sd i =
     (let d = minDepth sd + Fin (real i) * depthTickInterval sd;
          y = scaleDepth sd d
      in (y, mathRound d))"

definition gridLines :: "WellDataPoint list \<Rightarrow> (jsnum \<times> jsnum) list" where
  "gridLines sd = map (gridLineAt sd) [0..<depthTicks + 1]"

text \<open>
  The two line tracks: the points of the polyline, in the order of the sorted array;
  the circles are drawn at the same points.
\<close>

definition dtPoints :: "WellDataPoint list \<Rightarrow> (jsnum \<times> jsnum) list" where
  "dtPoints sd = map (\<lambda>point. (scaleDT sd (Fin (DT point)), scaleDepth sd (Fin (depth point)))) sd"

definition grPoints :: "WellDataPoint list \<Rightarrow> (jsnum \<times> jsnum) list" where
  "grPoints sd = map (\<lambda>point. (scaleGR sd (Fin (GR point)), scaleDepth sd (Fin (depth point)))) sd"

definition legend :: "WellDataPoint list \<Rightarrow> (string \<times> jsval) list" where
  "legend sd = map (\<lambda>rock. (rock, propertyGet (colorMap sd) rock)) (rockTypes sd)"

section \<open>The component\<close>

text \<open>
  What the component draws from the data: the grid lines with their labels, the two
  numbers printed under each line track, the bars, the polylines and circles of the line
  tracks, and the legend. The title, the axis and column titles and the column dividers
  are the same for every dataset and are left out.
\<close>

record layout =
  lay_gridLines :: "(jsnum \<times> jsnum) list"
  lay_dtAxis :: "jsnum \<times> jsnum"
  lay_grAxis :: "jsnum \<times> jsnum"
  lay_rockBars :: "rockBar list"
  lay_dtPolyline :: "(jsnum \<times> jsnum) list"
  lay_dtCircles :: "(jsnum \<times> jsnum) list"
  lay_grPolyline :: "(jsnum \<times> jsnum) list"
  lay_grCircles :: "(jsnum \<times> jsnum) list"
  lay_legend :: "(string \<times> jsval) list"

datatype chart = NoData | Chart layout

text \<open>
  \<open>WellDataChart({ data })\<close>. The guard \<open>!data || data.length === 0\<close> returns the
  "No data to display" element before anything is computed; \<open>None\<close> is a \<open>data\<close> that is
  \<open>null\<close> or \<open>undefined\<close>.
\<close>

definition WellDataChart :: "WellDataPoint list option \<Rightarrow> chart" where
  "WellDataChart props =
     (case props of
        None \<Rightarrow> NoData
      | Some data \<Rightarrow>
          if length data = 0 then NoData
          else
            (let sd = sortedData data
             in Chart \<lparr> lay_gridLines = gridLines sd,
                        lay_dtAxis = (toFixed0 (minDT sd), toFixed0 (maxDT sd)),
                        lay_grAxis = (toFixed0 (minGR sd), toFixed0 (maxGR sd)),
                        lay_rockBars = rockBars sd,
                        lay_dtPolyline = dtPoints sd,
                        lay_dtCircles = dtPoints sd,
                        lay_grPolyline = grPoints sd,
                        lay_grCircles = grPoints sd,
                        lay_legend = legend sd \<rparr>))"

section \<open>Example datasets\<close>

text \<open>The two measurements of the end-to-end example, given deepest first.\<close>

definition example_two :: "WellDataPoint list" where
  "example_two =
     [\<lparr>depth = 200, rockComposition = ''Sandstone'', DT = 90, GR = 60\<rparr>,
      \<lparr>depth = 100, rockComposition = ''Shale'', DT = 80, GR = 40\<rparr>]"

text \<open>A single measurement: every range is degenerate.\<close>

definition example_one :: "WellDataPoint list" where
  "example_one = [\<lparr>depth = 100, rockComposition = ''Shale'', DT = 80, GR = 40\<rparr>]"

text \<open>Three measurements; the first bar is exactly 20 units high.\<close>

definition example_three :: "WellDataPoint list" where
  "example_three =
     [\<lparr>depth = 104, rockComposition = ''Sandstone'', DT = 90, GR = 60\<rparr>,
      \<lparr>depth = 200, rockComposition = ''Limestone'', DT = 85, GR = 50\<rparr>,
      \<lparr>depth = 100, rockComposition = ''Shale'', DT = 80, GR = 40\<rparr>]"

text \<open>Two measurements at the same depth and a third one below, in two orders.\<close>

definition example_ties :: "WellDataPoint list" where
  "example_ties =
     [\<lparr>depth = 100, rockComposition = ''Shale'', DT = 80, GR = 40\<rparr>,
      \<lparr>depth = 100, rockComposition = ''Sandstone'', DT = 90, GR = 60\<rparr>,
      \<lparr>depth = 200, rockComposition = ''Limestone'', DT = 85, GR = 50\<rparr>]"

definition example_ties_permuted :: "WellDataPoint list" where
  "example_ties_permuted =
     [\<lparr>depth = 100, rockComposition = ''Sandstone'', DT = 90, GR = 60\<rparr>,
      \<lparr>depth = 100, rockComposition = ''Shale'', DT = 80, GR = 40\<rparr>,
      \<lparr>depth = 200, rockComposition = ''Limestone'', DT = 85, GR = 50\<rparr>]"

text \<open>A rock composition that is the name of the prototype accessor.\<close>

definition example_proto :: "WellDataPoint list" where
  "example_proto =
     [\<lparr>depth = 100, rockComposition = ''__proto__'', DT = 80, GR = 40\<rparr>,
      \<lparr>depth = 200, rockComposition = ''Shale'', DT = 90, GR = 60\<rparr>]"

text \<open>The four categories of the colour example, and eleven distinct categories.\<close>

definition example_four :: "WellDataPoint list" where
  "example_four =
     [\<lparr>depth = 100, rockComposition = ''Sandstone'', DT = 80, GR = 40\<rparr>,
      \<lparr>depth = 200, rockComposition = ''Shale'', DT = 90, GR = 60\<rparr>,
      \<lparr>depth = 300, rockComposition = ''Sandstone'', DT = 85, GR = 50\<rparr>,
      \<lparr>depth = 400, rockComposition = ''Limestone'', DT = 95, GR = 55\<rparr>]"

definition example_eleven :: "WellDataPoint list" where
  "example_eleven =
     map (\<lambda>(d, c). \<lparr>depth = d, rockComposition = c, DT = 80, GR = 40\<rparr>)
       [(1, ''A''), (2, ''B''), (3, ''C''), (4, ''D''), (5, ''E''), (6, ''F''),
        (7, ''G''), (8, ''H''), (9, ''I''), (10, ''J''), (11, ''K'')]"

text \<open>
  Two measurements whose depths \<open>-2^1023\<close> and \<open>2^1023\<close> are finite binary64 numbers
  (about \<open>8.99e307\<close>), but whose difference \<open>2^1024\<close> is beyond the largest finite
  number.
\<close>

definition hugeDepth :: real where
  "hugeDepth = 2 ^ 1023"

definition example_overflow :: "WellDataPoint list" where
  "example_overflow =
     [\<lparr>depth = - hugeDepth, rockComposition = ''Shale'', DT = 80, GR = 40\<rparr>,
      \<lparr>depth = hugeDepth, rockComposition = ''Sandstone'', DT = 90, GR = 60\<rparr>]"

section \<open>Basic facts\<close>

lemmas jsnum_ops =
  plus_jsnum_def uminus_jsnum_def minus_jsnum_def times_jsnum_def divide_jsnum_def
  less_jsnum_def less_eq_jsnum_def

lemmas geometry_defs =
  chartHeight_def chartWidth_def padding_top_def padding_right_def padding_bottom_def
  padding_left_def plotHeight_def plotWidth_def columnWidth_def

lemma overflowThreshold_large: "1000000 < overflowThreshold"
proof -
  have "(2::real) ^ 970 * 2 \<le> 2 ^ 970 * 2 ^ 54"
    by (intro mult_left_mono) simp_all
  then have "(2::real) ^ 970 \<le> 2 ^ 1024 - 2 ^ 970"
    by (simp flip: power_add)
  moreover have "(1000000::real) < 2 ^ 20"
    by simp
  moreover have "(2::real) ^ 20 \<le> 2 ^ 970"
    by (intro power_increasing) simp_all
  ultimately show ?thesis
    by (simp add: overflowThreshold_def)
qed

lemma fromReal_Fin: "\<bar>x\<bar> < overflowThreshold \<Longrightarrow> fromReal x = Fin x"
  by (auto simp: fromReal_def)

lemma fromReal_small: "\<bar>x\<bar> \<le> 1000000 \<Longrightarrow> fromReal x = Fin x"
  using overflowThreshold_large by (intro fromReal_Fin) simp

lemma fromReal_0 [simp]: "fromReal 0 = Fin 0"
  by (simp add: fromReal_small)

lemma fromReal_mono: "x \<le> y \<Longrightarrow> fromReal x \<le> fromReal y"
  using overflowThreshold_large by (auto simp: fromReal_def less_eq_jsnum_def)

lemma js_min2_Fin: "js_min2 (Fin a) (Fin x) = Fin (min a x)"
  by (auto simp: js_min2_def less_jsnum_def min_def)

lemma js_max2_Fin: "js_max2 (Fin a) (Fin x) = Fin (max a x)"
  by (auto simp: js_max2_def less_jsnum_def max_def)

lemma foldl_min_Fin: "foldl js_min2 (Fin a) (map Fin xs) = Fin (Min (insert a (set xs)))"
proof (induction xs arbitrary: a)
  case Nil show ?case by simp
next
  case (Cons x xs)
  have "Min (insert (min a x) (set xs)) = Min (insert a (insert x (set xs)))"
    by (cases "xs = []") (simp_all add: min.assoc)
  then show ?case using Cons.IH[of "min a x"]
    by (simp add: js_min2_Fin)
qed

lemma foldl_max_Fin: "foldl js_max2 (Fin a) (map Fin xs) = Fin (Max (insert a (set xs)))"
proof (induction xs arbitrary: a)
  case Nil show ?case by simp
next
  case (Cons x xs)
  have "Max (insert (max a x) (set xs)) = Max (insert a (insert x (set xs)))"
    by (cases "xs = []") (simp_all add: max.assoc)
  then show ?case using Cons.IH[of "max a x"]
    by (simp add: js_max2_Fin)
qed

lemma mathMin_Fin: "xs \<noteq> [] \<Longrightarrow> mathMin (map Fin xs) = Fin (Min (set xs))"
  by (cases xs) (simp_all add: mathMin_def js_min2_def less_jsnum_def foldl_min_Fin)

lemma mathMax_Fin: "xs \<noteq> [] \<Longrightarrow> mathMax (map Fin xs) = Fin (Max (set xs))"
  by (cases xs) (simp_all add: mathMax_def js_max2_def less_jsnum_def foldl_max_Fin)

lemma insertSorted_insort_key: "insertSorted compareDepth x ys = insort_key depth x ys"
  by (induction ys) (simp_all add: compareDepth_def)

lemma arraySort_sort_key: "arraySort compareDepth xs = sort_key depth xs"
  by (induction xs) (simp_all add: arraySort_def insertSorted_insort_key)

lemma sortedData_sort_key: "sortedData data = sort_key depth data"
  by (simp add: sortedData_def arraySort_sort_key)

lemma mathMin_map: "sd \<noteq> [] \<Longrightarrow> mathMin (map (\<lambda>d. Fin (f d)) sd) = Fin (Min (f ` set sd))"
  using mathMin_Fin [of "map f sd"] by (simp add: comp_def)

lemma mathMax_map: "sd \<noteq> [] \<Longrightarrow> mathMax (map (\<lambda>d. Fin (f d)) sd) = Fin (Max (f ` set sd))"
  using mathMax_Fin [of "map f sd"] by (simp add: comp_def)

lemma minDepth_Fin: "sd \<noteq> [] \<Longrightarrow> minDepth sd = Fin (Min (depth ` set sd))"
  by (simp add: minDepth_def mathMin_map)

lemma maxDepth_Fin: "sd \<noteq> [] \<Longrightarrow> maxDepth sd = Fin (Max (depth ` set sd))"
  by (simp add: maxDepth_def mathMax_map)

lemma minDT_Fin: "sd \<noteq> [] \<Longrightarrow> minDT sd = Fin (Min (DT ` set sd))"
  by (simp add: minDT_def mathMin_map)

lemma maxDT_Fin: "sd \<noteq> [] \<Longrightarrow> maxDT sd = Fin (Max (DT ` set sd))"
  by (simp add: maxDT_def mathMax_map)

lemma minGR_Fin: "sd \<noteq> [] \<Longrightarrow> minGR sd = Fin (Min (GR ` set sd))"
  by (simp add: minGR_def mathMin_map)

lemma maxGR_Fin: "sd \<noteq> [] \<Longrightarrow> maxGR sd = Fin (Max (GR ` set sd))"
  by (simp add: maxGR_def mathMax_map)

lemma sortedData_Nil [simp]: "sortedData data = [] \<longleftrightarrow> data = []"
  using length_sort [of depth data] unfolding sortedData_sort_key by (metis length_0_conv)

lemma set_sortedData [simp]: "set (sortedData data) = set data"
  by (simp add: sortedData_sort_key)

lemma length_sortedData [simp]: "length (sortedData data) = length data"
  by (simp add: sortedData_sort_key)

lemma sorted_sortedData: "sorted (map depth (sortedData data))"
  by (simp add: sortedData_sort_key)

lemma overflowThreshold_pos: "0 < overflowThreshold"
  using overflowThreshold_large by simp

lemma fromReal_le: "x \<le> y \<Longrightarrow> js_le (fromReal x) (fromReal y)"
  using overflowThreshold_pos by (auto simp: fromReal_def)

lemma fromReal_bounds [simp]: "js_le (fromReal z) PInf" "js_le NInf (fromReal z)"
  by (auto simp: fromReal_def)

lemma js_sub_mono: "a \<le> b \<Longrightarrow> a - Fin c \<le> b - Fin c"
  by (cases a; cases b) (simp_all add: jsnum_ops fromReal_le)

lemma js_div_mono: "0 < r \<Longrightarrow> a \<le> b \<Longrightarrow> a / Fin r \<le> b / Fin r"
  by (cases a; cases b) (simp_all add: jsnum_ops fromReal_le divide_right_mono)

lemma js_mul_mono: "0 < w \<Longrightarrow> a \<le> b \<Longrightarrow> a * Fin w \<le> b * Fin w"
  by (cases a; cases b) (simp_all add: jsnum_ops fromReal_le mult_right_mono)

lemma js_add_mono: "a \<le> b \<Longrightarrow> Fin c + a \<le> Fin c + b"
  by (cases a; cases b) (simp_all add: jsnum_ops fromReal_le)

lemma scaleDepth_mono:
  assumes "minDepth sd = Fin lo" and "depthRange sd = Fin r" and "0 < r" and "d1 \<le> d2"
  shows "scaleDepth sd d1 \<le> scaleDepth sd d2"
proof -
  have "d1 - Fin lo \<le> d2 - Fin lo"
    using assms(4) by (rule js_sub_mono)
  then have "(d1 - Fin lo) / Fin r \<le> (d2 - Fin lo) / Fin r"
    using assms(3) by (intro js_div_mono)
  then have "(d1 - Fin lo) / Fin r * Fin plotHeight \<le> (d2 - Fin lo) / Fin r * Fin plotHeight"
    by (intro js_mul_mono) (simp add: geometry_defs)
  then show ?thesis
    unfolding scaleDepth_def assms(1,2) by (rule js_add_mono)
qed

lemma scaleDepth_Fin:
  assumes "minDepth sd = Fin lo" and "depthRange sd = Fin r" and "0 < r" and "r < overflowThreshold"
    and "lo \<le> d" and "d - lo \<le> r"
  shows "scaleDepth sd (Fin d) = Fin (padding_top + (d - lo) / r * plotHeight)"
proof -
  have 1: "fromReal (d - lo) = Fin (d - lo)"
    using assms by (intro fromReal_Fin) simp
  have q: "0 \<le> (d - lo) / r" "(d - lo) / r \<le> 1"
    using assms by simp_all
  then have 2: "fromReal ((d - lo) / r) = Fin ((d - lo) / r)"
    by (intro fromReal_small) simp
  have p: "0 \<le> (d - lo) / r * plotHeight" "(d - lo) / r * plotHeight \<le> 500"
  proof -
    have h: "plotHeight = 500" by (simp add: geometry_defs)
    show "0 \<le> (d - lo) / r * plotHeight"
      unfolding h using q(1) by (intro mult_nonneg_nonneg) simp_all
    show "(d - lo) / r * plotHeight \<le> 500"
      unfolding h using mult_right_mono [OF q(2), of 500] by simp
  qed
  then have 3: "fromReal ((d - lo) / r * plotHeight) = Fin ((d - lo) / r * plotHeight)"
    by (intro fromReal_small) simp
  have 4: "fromReal (padding_top + (d - lo) / r * plotHeight) = Fin (padding_top + (d - lo) / r * plotHeight)"
    using p by (intro fromReal_small) (simp add: geometry_defs)
  have a: "Fin d - Fin lo = Fin (d - lo)"
    by (simp add: jsnum_ops 1)
  have b: "Fin (d - lo) / Fin r = Fin ((d - lo) / r)"
    using assms(3) by (simp only: divide_jsnum_def js_div.simps 2) simp
  have c: "Fin ((d - lo) / r) * Fin plotHeight = Fin ((d - lo) / r * plotHeight)"
    by (simp only: times_jsnum_def js_mul.simps 3)
  have e: "Fin padding_top + Fin ((d - lo) / r * plotHeight) =
           Fin (padding_top + (d - lo) / r * plotHeight)"
    by (simp only: plus_jsnum_def js_add.simps 4)
  show ?thesis
    by (simp only: scaleDepth_def assms(1,2) a b c e)
qed

lemma nondegenerate_depth:
  assumes "minDepth sd < maxDepth sd" and "depthRange sd < PInf"
  obtains lo hi where "sd \<noteq> []" and "minDepth sd = Fin lo" and "maxDepth sd = Fin hi" and "lo < hi"
    and "depthRange sd = Fin (hi - lo)" and "hi - lo < overflowThreshold"
    and "lo = Min (depth ` set sd)" and "hi = Max (depth ` set sd)"
proof -
  have ne: "sd \<noteq> []"
    using assms(1) by (auto simp: minDepth_def maxDepth_def mathMin_def mathMax_def less_jsnum_def)
  let ?lo = "Min (depth ` set sd)" and ?hi = "Max (depth ` set sd)"
  have lt: "?lo < ?hi"
    using assms(1) by (simp add: minDepth_Fin [OF ne] maxDepth_Fin [OF ne] less_jsnum_def)
  have "depthRange sd = fromReal (?hi - ?lo)"
    by (simp add: depthRange_def minDepth_Fin [OF ne] maxDepth_Fin [OF ne] jsnum_ops)
  with assms(2) lt overflowThreshold_pos have "depthRange sd = Fin (?hi - ?lo)" "?hi - ?lo < overflowThreshold"
    by (auto simp: fromReal_def less_jsnum_def split: if_splits)
  with ne lt show thesis
    using that [of ?lo ?hi] by (simp add: minDepth_Fin [OF ne] maxDepth_Fin [OF ne])
qed


lemma plot_bottom: "Fin chartHeight - Fin padding_bottom = Fin (chartHeight - padding_bottom)"
  by (simp add: jsnum_ops geometry_defs fromReal_small)

lemma scale_degenerate_gen:
  assumes "lo = Fin m" and "hi = Fin m" and "0 < w"
  shows "Fin off + ((Fin v - lo) / (hi - lo)) * Fin w =
           (if v = m then NaN else if m < v then PInf else NInf)"
  using assms overflowThreshold_pos by (auto simp: jsnum_ops fromReal_def)

lemmas eval_defs =
  sortedData_def arraySort_def compareDepth_def minDepth_def maxDepth_def minDT_def maxDT_def
  minGR_def maxGR_def mathMin_def mathMax_def js_min2_def js_max2_def depthRange_def
  scaleDepth_def scaleDT_def scaleGR_def jsnum_ops geometry_defs fromReal_small

lemma degenerate_all_equal:
  fixes f :: "'a \<Rightarrow> real"
  assumes "sd \<noteq> []" and "Max (f ` set sd) = Min (f ` set sd)" and "p \<in> set sd"
  shows "f p = Min (f ` set sd)"
proof -
  have "Min (f ` set sd) \<le> f p" and "f p \<le> Max (f ` set sd)"
    using assms(3) by simp_all
  with assms(2) show ?thesis by simp
qed






lemma scaleDepth_data:
  assumes "minDepth sd < maxDepth sd" and "depthRange sd < PInf" and "p \<in> set sd"
  obtains y where "scaleDepth sd (Fin (depth p)) = Fin y" and "padding_top \<le> y"
    and "y \<le> chartHeight - padding_bottom"
proof -
  from assms(1,2) obtain lo hi where r: "minDepth sd = Fin lo" "lo < hi"
      "depthRange sd = Fin (hi - lo)" "hi - lo < overflowThreshold"
      "lo = Min (depth ` set sd)" "hi = Max (depth ` set sd)"
    by (rule nondegenerate_depth)
  have d: "lo \<le> depth p" "depth p \<le> hi"
    unfolding r(5,6) using assms(3) by simp_all
  then have s: "scaleDepth sd (Fin (depth p)) = Fin (padding_top + (depth p - lo) / (hi - lo) * plotHeight)"
    using r by (intro scaleDepth_Fin) simp_all
  have q: "0 \<le> (depth p - lo) / (hi - lo)" "(depth p - lo) / (hi - lo) \<le> 1"
    using d r(2) by simp_all
  have h: "plotHeight = 500" by (simp add: geometry_defs)
  have "0 \<le> (depth p - lo) / (hi - lo) * plotHeight"
    unfolding h using q(1) by (intro mult_nonneg_nonneg) simp_all
  moreover have "(depth p - lo) / (hi - lo) * plotHeight \<le> 500"
    unfolding h using mult_right_mono [OF q(2), of 500] by simp
  ultimately show thesis
    using that [OF s] by (simp add: geometry_defs)
qed

lemma rockBar_y2_cases:
  "rockBar_y2 sd i =
     (if i + 1 < length sd then scaleDepth sd (Fin (depth (sd ! (i + 1))))
      else Fin (chartHeight - padding_bottom))"
  by (simp add: rockBar_y2_def plot_bottom)

lemma rockBarAt_y: "bar_y (rockBarAt sd i) = scaleDepth sd (Fin (depth (sd ! i)))"
  by (simp add: rockBarAt_def Let_def)

lemma rockBarAt_height: "bar_height (rockBarAt sd i) = rockBar_y2 sd i - bar_y (rockBarAt sd i)"
  by (simp add: rockBarAt_def Let_def)

lemma bar_height_nonneg:
  assumes nd: "minDepth sd < maxDepth sd" and fin: "depthRange sd < PInf"
    and srt: "sorted (map depth sd)" and i: "i < length sd"
  shows "Fin 0 \<le> bar_height (rockBarAt sd i)"
proof -
  from nd fin obtain lo hi where r: "minDepth sd = Fin lo" "lo < hi"
      "depthRange sd = Fin (hi - lo)"
    by (rule nondegenerate_depth)
  from nd fin nth_mem [OF i] obtain y1 where y1: "scaleDepth sd (Fin (depth (sd ! i))) = Fin y1"
      "y1 \<le> chartHeight - padding_bottom"
    by (rule scaleDepth_data)
  have "\<exists>y2. rockBar_y2 sd i = Fin y2 \<and> y1 \<le> y2"
  proof (cases "i + 1 < length sd")
    case True
    with nd fin obtain y2 where y2: "scaleDepth sd (Fin (depth (sd ! (i + 1)))) = Fin y2"
      using scaleDepth_data [OF nd fin nth_mem [OF True]] by blast
    from srt True have "depth (sd ! i) \<le> depth (sd ! (i + 1))"
      using sorted_nth_mono [of "map depth sd" i "i + 1"] by simp
    then have "Fin (depth (sd ! i)) \<le> Fin (depth (sd ! (i + 1)))"
      by (simp add: less_eq_jsnum_def)
    from scaleDepth_mono [OF r(1) r(3) _ this] r(2) y2 have "y1 \<le> y2"
      by (simp add: y1 less_eq_jsnum_def)
    with True y2 show ?thesis
      by (simp add: rockBar_y2_cases)
  next
    case False
    with y1 show ?thesis
      by (simp add: rockBar_y2_cases)
  qed
  then obtain y2 where y2: "rockBar_y2 sd i = Fin y2" "y1 \<le> y2" by blast
  have "js_le (fromReal 0) (fromReal (y2 - y1))"
    using y2(2) by (intro fromReal_le) simp
  then show ?thesis
    by (simp add: rockBarAt_height rockBarAt_y y1 y2 jsnum_ops)
qed

lemma rockBars_nth: "i < length sd \<Longrightarrow> rockBars sd ! i = rockBarAt sd i"
  by (simp add: rockBars_def)




lemma hugeDepth_pos: "0 < hugeDepth"
  by (simp add: hugeDepth_def)

lemma fromReal_overflow: "fromReal (2 * hugeDepth) = PInf"
proof -
  have "2 * hugeDepth = 2 ^ 1024"
    by (simp add: hugeDepth_def)
  moreover have "overflowThreshold \<le> 2 ^ 1024"
    by (simp add: overflowThreshold_def)
  ultimately show ?thesis
    by (simp add: fromReal_def)
qed

lemma example_overflow_facts:
  "sortedData example_overflow = example_overflow"
  "minDepth example_overflow = Fin (- hugeDepth)"
  "maxDepth example_overflow = Fin hugeDepth"
  "depthRange example_overflow = PInf"
  "scaleDepth example_overflow (Fin (- hugeDepth)) = Fin padding_top"
  "scaleDepth example_overflow (Fin hugeDepth) = NaN"
proof -
  note p = hugeDepth_pos
  show s: "sortedData example_overflow = example_overflow"
    using p by (simp add: example_overflow_def sortedData_def arraySort_def compareDepth_def)
  show lo: "minDepth example_overflow = Fin (- hugeDepth)"
    using p by (simp add: example_overflow_def minDepth_def mathMin_def js_min2_def less_jsnum_def)
  show hi: "maxDepth example_overflow = Fin hugeDepth"
    using p by (simp add: example_overflow_def maxDepth_def mathMax_def js_max2_def less_jsnum_def)
  show r: "depthRange example_overflow = PInf"
    by (simp add: depthRange_def lo hi minus_jsnum_def fromReal_overflow)
  show "scaleDepth example_overflow (Fin (- hugeDepth)) = Fin padding_top"
    by (simp add: scaleDepth_def r lo jsnum_ops fromReal_small geometry_defs)
  show "scaleDepth example_overflow (Fin hugeDepth) = NaN"
    by (simp add: scaleDepth_def r lo jsnum_ops fromReal_overflow)
qed

lemma sortedData_example_three:
  "sortedData example_three =
     [\<lparr>depth = 100, rockComposition = ''Shale'', DT = 80, GR = 40\<rparr>,
      \<lparr>depth = 104, rockComposition = ''Sandstone'', DT = 90, GR = 60\<rparr>,
      \<lparr>depth = 200, rockComposition = ''Limestone'', DT = 85, GR = 50\<rparr>]"
  by (simp add: example_three_def sortedData_def arraySort_def compareDepth_def)

lemma sort_key_perm_inj:
  assumes m: "mset xs = mset ys" and inj: "inj_on f (set xs)"
  shows "sort_key f xs = sort_key f ys"
proof (rule properties_for_sort_key)
  show "mset (sort_key f ys) = mset xs"
    using m by simp
  show "sorted (map f (sort_key f ys))"
    by simp
  fix k
  assume "k \<in> set (sort_key f ys)"
  then have k: "k \<in> set xs"
    using m by (metis set_mset_mset set_sort)
  have sets: "set ys = set xs"
    using m by (metis set_mset_mset)
  have eqx: "filter (\<lambda>x. f k = f x) xs = filter (\<lambda>x. k = x) xs"
    using inj k by (intro filter_cong refl) (auto dest: inj_onD)
  have eqy: "filter (\<lambda>x. f k = f x) ys = filter (\<lambda>x. k = x) ys"
    using inj k sets by (intro filter_cong refl) (auto dest: inj_onD)
  have "length (filter (\<lambda>x. k = x) ys) = length (filter (\<lambda>x. k = x) xs)"
    using m by (metis mset_filter size_mset)
  then have "replicate (length (filter (\<lambda>x. k = x) ys)) k =
             replicate (length (filter (\<lambda>x. k = x) xs)) k"
    by simp
  then have "filter (\<lambda>x. k = x) ys = filter (\<lambda>x. k = x) xs"
    by (simp add: replicate_length_filter)
  moreover have "filter (\<lambda>x. f k = f x) (sort_key f ys) = filter (\<lambda>x. f k = f x) ys"
    using sort_key_stable [of f "f k" ys] by (simp add: eq_commute [of "f k"])
  ultimately show "filter (\<lambda>x. f k = f x) (sort_key f ys) = filter (\<lambda>x. f k = f x) xs"
    using eqx eqy by simp
qed

lemma arrayFromSet_snoc: "arrayFromSet (xs @ [x]) = setAdd (arrayFromSet xs) x"
  by (simp add: arrayFromSet_def)

lemma set_arrayFromSet [simp]: "set (arrayFromSet xs) = set xs"
  by (induction xs rule: rev_induct) (auto simp: arrayFromSet_snoc setAdd_def arrayFromSet_def)

lemma distinct_arrayFromSet [simp]: "distinct (arrayFromSet xs)"
  by (induction xs rule: rev_induct) (auto simp: arrayFromSet_snoc setAdd_def arrayFromSet_def)

lemma arrayFromSet_first_seen:
  "arrayFromSet xs = map (\<lambda>i. xs ! i) (filter (\<lambda>i. xs ! i \<notin> set (take i xs)) [0..<length xs])"
proof (induction xs rule: rev_induct)
  case Nil
  show ?case by (simp add: arrayFromSet_def)
next
  case (snoc x xs)
  let ?new = "\<lambda>ys i. ys ! i \<notin> set (take i ys)"
  have f: "filter (?new (xs @ [x])) [0..<length xs] = filter (?new xs) [0..<length xs]"
    by (rule filter_cong) (simp_all add: nth_append)
  have m: "map (\<lambda>i. (xs @ [x]) ! i) (filter (?new xs) [0..<length xs]) =
           map (\<lambda>i. xs ! i) (filter (?new xs) [0..<length xs])"
    by (rule map_cong) (simp_all add: nth_append)
  have l: "filter (?new (xs @ [x])) [length xs] = (if x \<in> set xs then [] else [length xs])"
    by simp
  have "map (\<lambda>i. (xs @ [x]) ! i) (filter (?new (xs @ [x])) [0..<length (xs @ [x])]) =
        map (\<lambda>i. (xs @ [x]) ! i) (filter (?new (xs @ [x])) [0..<length xs]) @
        map (\<lambda>i. (xs @ [x]) ! i) (filter (?new (xs @ [x])) [length xs])"
    by (simp only: length_append_singleton upt_Suc_append le0 filter_append map_append)
  also have "\<dots> = arrayFromSet xs @ (if x \<in> set xs then [] else [x])"
    unfolding f m l snoc.IH [symmetric] by simp
  also have "\<dots> = arrayFromSet (xs @ [x])"
    by (simp add: arrayFromSet_snoc setAdd_def)
  finally show ?case by simp
qed

lemma forEachRock_other:
  "k \<notin> set rs \<or> k = ''__proto__'' \<Longrightarrow> forEachRock m i rs k = m k"
  by (induction rs arbitrary: m i) (auto simp: propertySet_def)

lemma forEachRock_nth:
  "distinct rs \<Longrightarrow> j < length rs \<Longrightarrow> rs ! j \<noteq> ''__proto__'' \<Longrightarrow>
   forEachRock m i rs (rs ! j) = Some (colors ! ((i + j) mod length colors))"
proof (induction rs arbitrary: m i j)
  case Nil
  then show ?case by simp
next
  case (Cons r rs)
  show ?case
  proof (cases j)
    case 0
    with Cons.prems show ?thesis
      by (simp add: forEachRock_other propertySet_def)
  next
    case (Suc j')
    with Cons.prems Cons.IH [of j' "propertySet m r (colors ! (i mod length colors))" "Suc i"]
    show ?thesis by simp
  qed
qed

lemma colors_nth_mem: "colors ! (k mod length colors) \<in> set colors"
  by (rule nth_mem) (simp add: colors_def)

lemma colors_truthy: "c \<in> set colors \<Longrightarrow> c \<noteq> [] \<and> c \<noteq> ''#64748b''"
  by (auto simp: colors_def)

lemma set_rockTypes [simp]: "set (rockTypes sd) = rockComposition ` set sd"
  by (simp add: rockTypes_def)

lemma colorMap_nth:
  assumes "k < length (rockTypes sd)" and "rockTypes sd ! k \<noteq> ''__proto__''"
  shows "colorMap sd (rockTypes sd ! k) = Some (colors ! (k mod length colors))"
  using forEachRock_nth [of "rockTypes sd" k Map.empty 0] assms
  by (simp add: colorMap_def rockTypes_def)

lemma colorMap_proto: "colorMap sd ''__proto__'' = None"
  by (simp add: colorMap_def forEachRock_other)

lemma dom_colorMap: "dom (colorMap sd) = rockComposition ` set sd - {''__proto__''}"
proof (rule set_eqI)
  fix c
  show "c \<in> dom (colorMap sd) \<longleftrightarrow> c \<in> rockComposition ` set sd - {''__proto__''}"
  proof (cases "c \<in> set (rockTypes sd) \<and> c \<noteq> ''__proto__''")
    case True
    then obtain k where "k < length (rockTypes sd)" "rockTypes sd ! k = c"
      by (auto simp: in_set_conv_nth simp del: set_rockTypes)
    with True colorMap_nth [of k sd] show ?thesis by auto
  next
    case False
    then have "colorMap sd c = None"
      by (auto simp: colorMap_def forEachRock_other simp del: set_rockTypes)
    with False show ?thesis by auto
  qed
qed

lemma colorMap_first_seen:
  assumes "''__proto__'' \<notin> rockComposition ` set sd"
  shows "distinct (rockTypes sd) \<and>
         set (rockTypes sd) = rockComposition ` set sd \<and>
         dom (colorMap sd) = set (rockTypes sd) \<and>
         (\<forall>k < length (rockTypes sd).
            colorMap sd (rockTypes sd ! k) = Some (colors ! (k mod length colors))) \<and>
         rockTypes sd =
           map (\<lambda>i. rockComposition (sd ! i))
             (filter (\<lambda>i. rockComposition (sd ! i) \<notin> rockComposition ` set (take i sd)) [0..<length sd])"
proof -
  have "rockTypes sd ! k \<noteq> ''__proto__''" if "k < length (rockTypes sd)" for k
    using assms nth_mem [OF that] by auto
  then have nth: "\<forall>k < length (rockTypes sd).
            colorMap sd (rockTypes sd ! k) = Some (colors ! (k mod length colors))"
    using colorMap_nth by blast
  have first: "rockTypes sd =
           map (\<lambda>i. rockComposition (sd ! i))
             (filter (\<lambda>i. rockComposition (sd ! i) \<notin> rockComposition ` set (take i sd)) [0..<length sd])"
    unfolding rockTypes_def arrayFromSet_first_seen [of "map rockComposition sd"]
    by (auto simp: take_map intro!: map_cong filter_cong)
  have dist: "distinct (rockTypes sd)"
    by (simp add: rockTypes_def)
  have dom: "dom (colorMap sd) = set (rockTypes sd)"
    using assms by (simp add: dom_colorMap)
  from dist set_rockTypes dom nth first show ?thesis
    by (intro conjI)
qed

lemma bar_fill_cases:
  assumes "i < length sd"
  shows "bar_fill (rockBarAt sd i) =
           (if rockComposition (sd ! i) = ''__proto__'' then JInherited ''__proto__''
            else JString (the (colorMap sd (rockComposition (sd ! i)))))"
    and "rockComposition (sd ! i) \<noteq> ''__proto__'' \<Longrightarrow>
           \<exists>c \<in> set colors. colorMap sd (rockComposition (sd ! i)) = Some c"
    and "bar_fill (rockBarAt sd i) \<noteq> JString ''#64748b''"
proof -
  let ?c = "rockComposition (sd ! i)"
  have mem: "?c \<in> set (rockTypes sd)"
    using assms by simp
  then obtain k where k: "k < length (rockTypes sd)" "rockTypes sd ! k = ?c"
    by (auto simp: in_set_conv_nth simp del: set_rockTypes)
  have some: "colorMap sd ?c = Some (colors ! (k mod length colors))" if "?c \<noteq> ''__proto__''"
    using colorMap_nth [of k sd] k that by simp
  show pal: "?c \<noteq> ''__proto__'' \<Longrightarrow> \<exists>c \<in> set colors. colorMap sd ?c = Some c"
    using some colors_nth_mem by blast
  show fill: "bar_fill (rockBarAt sd i) =
           (if ?c = ''__proto__'' then JInherited ''__proto__''
            else JString (the (colorMap sd ?c)))"
  proof (cases "?c = ''__proto__''")
    case True
    then show ?thesis
      by (simp add: rockBarAt_def Let_def propertyGet_def colorMap_proto js_or_def
          objectPrototypeNames_def)
  next
    case False
    with pal obtain c where "c \<in> set colors" "colorMap sd ?c = Some c" by blast
    with False colors_truthy [of c] show ?thesis
      by (simp add: rockBarAt_def Let_def propertyGet_def js_or_def)
  qed
  show "bar_fill (rockBarAt sd i) \<noteq> JString ''#64748b''"
  proof (cases "?c = ''__proto__''")
    case True
    with fill show ?thesis by simp
  next
    case False
    with pal obtain c where "c \<in> set colors" "colorMap sd ?c = Some c" by blast
    with False fill colors_truthy [of c] show ?thesis by simp
  qed
qed

text \<open>
  The colour table on the example of four categories, and on eleven distinct categories,
  where the eleventh takes the first colour of the palette again.
\<close>

lemma colorMap_example_four:
  "rockTypes (sortedData example_four) = [''Sandstone'', ''Shale'', ''Limestone''] \<and>
   dom (colorMap (sortedData example_four)) = {''Sandstone'', ''Shale'', ''Limestone''} \<and>
   colorMap (sortedData example_four) ''Sandstone'' = Some ''#8b5cf6'' \<and>
   colorMap (sortedData example_four) ''Shale'' = Some ''#ec4899'' \<and>
   colorMap (sortedData example_four) ''Limestone'' = Some ''#f59e0b''"
proof -
  have s: "sortedData example_four = example_four"
    by (simp add: example_four_def sortedData_def arraySort_def compareDepth_def)
  have "''__proto__'' \<notin> rockComposition ` set (sortedData example_four)"
    unfolding s by (simp add: example_four_def)
  from colorMap_first_seen [OF this] have "dom (colorMap (sortedData example_four)) =
      set (rockTypes (sortedData example_four))"
    by blast
  moreover have r: "rockTypes (sortedData example_four) = [''Sandstone'', ''Shale'', ''Limestone'']"
    unfolding s by (simp add: example_four_def rockTypes_def arrayFromSet_def setAdd_def)
  moreover have "colorMap (sortedData example_four) ''Sandstone'' = Some ''#8b5cf6''"
      "colorMap (sortedData example_four) ''Shale'' = Some ''#ec4899''"
      "colorMap (sortedData example_four) ''Limestone'' = Some ''#f59e0b''"
    by (simp_all add: colorMap_def r propertySet_def colors_def)
  ultimately show ?thesis by auto
qed

lemma colorMap_example_eleven:
  "length (rockTypes (sortedData example_eleven)) = 11 \<and>
   rockTypes (sortedData example_eleven) ! 10 = ''K'' \<and>
   colorMap (sortedData example_eleven) ''K'' = Some (colors ! 0) \<and>
   colorMap (sortedData example_eleven) ''A'' = Some (colors ! 0)"
proof -
  have r: "rockTypes (sortedData example_eleven) =
      [''A'', ''B'', ''C'', ''D'', ''E'', ''F'', ''G'', ''H'', ''I'', ''J'', ''K'']"
    by (simp add: example_eleven_def sortedData_def arraySort_def compareDepth_def
        rockTypes_def arrayFromSet_def setAdd_def)
  show ?thesis
    by (simp add: colorMap_def r propertySet_def colors_def)
qed

section \<open>The claims\<close>

text \<open>
  Claim C1, as the code has it. The scales have no guard for a degenerate domain: when the
  greatest and the least value of a dimension coincide, the scale divides by zero. No
  error is raised; the result is \<open>NaN\<close> at the common value, \<open>+Infinity\<close> above it and
  \<open>-Infinity\<close> below it. Hence every scaled point of such a track has the same coordinate,
  which is \<open>NaN\<close> and not the midpoint of the pixel range.
\<close>

theorem scale_degenerate:
  assumes "data \<noteq> []" and "sd = sortedData data"
  shows "(maxDepth sd = minDepth sd \<longrightarrow>
            (\<forall>v. scaleDepth sd (Fin v) =
                   (if Fin v = minDepth sd then NaN else if minDepth sd < Fin v then PInf else NInf)) \<and>
            (\<forall>p \<in> set sd. scaleDepth sd (Fin (depth p)) = NaN)) \<and>
         (maxDT sd = minDT sd \<longrightarrow>
            (\<forall>v. scaleDT sd (Fin v) =
                   (if Fin v = minDT sd then NaN else if minDT sd < Fin v then PInf else NInf)) \<and>
            (\<forall>p \<in> set sd. scaleDT sd (Fin (DT p)) = NaN)) \<and>
         (maxGR sd = minGR sd \<longrightarrow>
            (\<forall>v. scaleGR sd (Fin v) =
                   (if Fin v = minGR sd then NaN else if minGR sd < Fin v then PInf else NInf)) \<and>
            (\<forall>p \<in> set sd. scaleGR sd (Fin (GR p)) = NaN))"
proof -
  have ne: "sd \<noteq> []" using assms by simp
  have depth: "scaleDepth sd (Fin v) =
        (if Fin v = minDepth sd then NaN else if minDepth sd < Fin v then PInf else NInf)"
    if "maxDepth sd = minDepth sd" for v
    using that scale_degenerate_gen [of "minDepth sd" "Min (depth ` set sd)" "maxDepth sd" plotHeight padding_top v]
    by (simp add: scaleDepth_def depthRange_def minDepth_Fin [OF ne] less_jsnum_def geometry_defs)
  have dt: "scaleDT sd (Fin v) =
        (if Fin v = minDT sd then NaN else if minDT sd < Fin v then PInf else NInf)"
    if "maxDT sd = minDT sd" for v
    using that scale_degenerate_gen [of "minDT sd" "Min (DT ` set sd)" "maxDT sd"
        "columnWidth * 0.8" "padding_left + columnWidth * 0.1" v]
    by (simp add: scaleDT_def minDT_Fin [OF ne] less_jsnum_def plus_jsnum_def times_jsnum_def geometry_defs
        fromReal_small)
  have gr: "scaleGR sd (Fin v) =
        (if Fin v = minGR sd then NaN else if minGR sd < Fin v then PInf else NInf)"
    if "maxGR sd = minGR sd" for v
    using that scale_degenerate_gen [of "minGR sd" "Min (GR ` set sd)" "maxGR sd"
        "columnWidth * 0.8" "padding_left + columnWidth * 2.1" v]
    by (simp add: scaleGR_def minGR_Fin [OF ne] less_jsnum_def plus_jsnum_def times_jsnum_def geometry_defs
        fromReal_small)
  have depth_pt: "scaleDepth sd (Fin (depth p)) = NaN" if "maxDepth sd = minDepth sd" "p \<in> set sd" for p
    using that degenerate_all_equal [OF ne, of depth p]
    by (simp add: depth minDepth_Fin [OF ne] maxDepth_Fin [OF ne])
  have dt_pt: "scaleDT sd (Fin (DT p)) = NaN" if "maxDT sd = minDT sd" "p \<in> set sd" for p
    using that degenerate_all_equal [OF ne, of DT p]
    by (simp add: dt minDT_Fin [OF ne] maxDT_Fin [OF ne])
  have gr_pt: "scaleGR sd (Fin (GR p)) = NaN" if "maxGR sd = minGR sd" "p \<in> set sd" for p
    using that degenerate_all_equal [OF ne, of GR p]
    by (simp add: gr minGR_Fin [OF ne] maxGR_Fin [OF ne])
  show ?thesis
    using depth dt gr depth_pt dt_pt gr_pt by blast
qed

theorem scale_degenerate_witness:
  "example_one \<noteq> [] \<and>
   maxDepth (sortedData example_one) = minDepth (sortedData example_one) \<and>
   maxDT (sortedData example_one) = minDT (sortedData example_one) \<and>
   maxGR (sortedData example_one) = minGR (sortedData example_one) \<and>
   scaleDepth (sortedData example_one) (Fin 100) = NaN \<and>
   scaleDepth (sortedData example_one) (Fin 101) = PInf \<and>
   scaleDT (sortedData example_one) (Fin 80) = NaN \<and>
   scaleGR (sortedData example_one) (Fin 39) = NInf"
proof -
  have ne: "example_one \<noteq> []"
    by (simp add: example_one_def)
  have h: "maxDepth (sortedData example_one) = minDepth (sortedData example_one)"
      "maxDT (sortedData example_one) = minDT (sortedData example_one)"
      "maxGR (sortedData example_one) = minGR (sortedData example_one)"
      "minDepth (sortedData example_one) = Fin 100"
      "minDT (sortedData example_one) = Fin 80"
      "minGR (sortedData example_one) = Fin 40"
    by (simp_all add: example_one_def sortedData_def arraySort_def minDepth_def maxDepth_def
        minDT_def maxDT_def minGR_def maxGR_def mathMin_def mathMax_def js_min2_def js_max2_def
        less_jsnum_def)
  from scale_degenerate [OF ne refl] h ne show ?thesis
    by (simp add: less_jsnum_def)
qed

text \<open>
  The claim as stated fails on a single measurement: each of the three scales is
  degenerate there and returns \<open>NaN\<close>, where the midpoints would be 290, 210 and 730.
\<close>

theorem scale_degenerate_counterexample:
  "maxDepth (sortedData example_one) = minDepth (sortedData example_one) \<and>
   scaleDepth (sortedData example_one) (Fin 100) = NaN \<and>
   NaN \<noteq> Fin ((padding_top + (chartHeight - padding_bottom)) / 2) \<and>
   maxDT (sortedData example_one) = minDT (sortedData example_one) \<and>
   scaleDT (sortedData example_one) (Fin 80) = NaN \<and>
   NaN \<noteq> Fin (padding_left + columnWidth * 0.5) \<and>
   maxGR (sortedData example_one) = minGR (sortedData example_one) \<and>
   scaleGR (sortedData example_one) (Fin 40) = NaN \<and>
   NaN \<noteq> Fin (padding_left + columnWidth * 2.5)"
  by (simp add: example_one_def eval_defs)

text \<open>
  Claim C2, as the code has it. For every dataset in which no two different records have
  the same depth, rendering a permutation of the dataset gives the same sorted array,
  the same colour table and the same layout as rendering the dataset.
\<close>

theorem render_permutation:
  assumes "mset xs = mset ys" and "inj_on depth (set xs)"
  shows "sortedData xs = sortedData ys \<and>
         colorMap (sortedData xs) = colorMap (sortedData ys) \<and>
         WellDataChart (Some xs) = WellDataChart (Some ys)"
proof -
  have s: "sortedData xs = sortedData ys"
    unfolding sortedData_sort_key using assms by (rule sort_key_perm_inj)
  have "length xs = length ys"
    using assms(1) by (metis size_mset)
  with s show ?thesis
    by (simp add: WellDataChart_def)
qed

theorem render_permutation_witness:
  "mset example_three = mset (rev example_three) \<and>
   inj_on depth (set example_three) \<and>
   example_three \<noteq> rev example_three \<and>
   sortedData example_three = sortedData (rev example_three) \<and>
   colorMap (sortedData example_three) = colorMap (sortedData (rev example_three)) \<and>
   WellDataChart (Some example_three) = WellDataChart (Some (rev example_three))"
proof -
  have m: "mset example_three = mset (rev example_three)"
    by simp
  have i: "inj_on depth (set example_three)"
    by (simp add: example_three_def)
  have "example_three \<noteq> rev example_three"
    by (simp add: example_three_def)
  with render_permutation [OF m i] m i show ?thesis
    by blast
qed

text \<open>
  With two different records at one depth the claim fails: the stable sort keeps them in
  their input order, so exchanging them in the input exchanges them in the sorted array,
  and with it their colours and the layout.
\<close>

theorem render_permutation_counterexample:
  "example_ties \<noteq> [] \<and>
   mset example_ties_permuted = mset example_ties \<and>
   sortedData example_ties_permuted \<noteq> sortedData example_ties \<and>
   colorMap (sortedData example_ties_permuted) ''Shale'' \<noteq> colorMap (sortedData example_ties) ''Shale'' \<and>
   WellDataChart (Some example_ties_permuted) \<noteq> WellDataChart (Some example_ties)"
proof -
  have sa: "sortedData example_ties = example_ties"
    and sb: "sortedData example_ties_permuted = example_ties_permuted"
    by (simp_all add: example_ties_def example_ties_permuted_def sortedData_def arraySort_def
        compareDepth_def)
  have ra: "rockTypes example_ties = [''Shale'', ''Sandstone'', ''Limestone'']"
    and rb: "rockTypes example_ties_permuted = [''Sandstone'', ''Shale'', ''Limestone'']"
    by (simp_all add: example_ties_def example_ties_permuted_def rockTypes_def arrayFromSet_def
        setAdd_def)
  have ne: "example_ties \<noteq> []" "length example_ties \<noteq> 0" "length example_ties_permuted \<noteq> 0"
    by (simp_all add: example_ties_def example_ties_permuted_def)
  have m: "mset example_ties_permuted = mset example_ties"
    by (simp add: example_ties_def example_ties_permuted_def)
  have d: "example_ties_permuted \<noteq> example_ties"
    by (simp add: example_ties_def example_ties_permuted_def)
  have c: "colorMap example_ties_permuted ''Shale'' \<noteq> colorMap example_ties ''Shale''"
    by (simp add: colorMap_def ra rb propertySet_def colors_def)
  have "map fst (legend example_ties_permuted) \<noteq> map fst (legend example_ties)"
    by (simp add: legend_def ra rb comp_def)
  then have "legend example_ties_permuted \<noteq> legend example_ties"
    by metis
  then have "WellDataChart (Some example_ties_permuted) \<noteq> WellDataChart (Some example_ties)"
    using ne by (simp add: WellDataChart_def sa sb)
  with ne m d c show ?thesis
    by (simp add: sa sb)
qed

text \<open>
  Claim C3 requires one entry of the colour table for every distinct category, the
  \<open>k\<close>-th distinct category (from 0) having the palette colour \<open>k mod 10\<close>. The code
  does this for every category but one (\<open>colorMap_first_seen\<close>): a category named
  \<open>__proto__\<close> is counted, so the next category takes the second colour, but the write
  \<open>colorMap[rock] = ...\<close> is dropped and the table has no entry for it.
\<close>

theorem colorMap_proto_dropped:
  "rockTypes (sortedData example_proto) = [''__proto__'', ''Shale''] \<and>
   colorMap (sortedData example_proto) ''__proto__'' = None \<and>
   colorMap (sortedData example_proto) ''Shale'' = Some ''#ec4899'' \<and>
   dom (colorMap (sortedData example_proto)) = {''Shale''}"
proof -
  have s: "sortedData example_proto = example_proto"
    by (simp add: example_proto_def sortedData_def arraySort_def compareDepth_def)
  have r: "rockTypes (sortedData example_proto) = [''__proto__'', ''Shale'']"
    unfolding s by (simp add: example_proto_def rockTypes_def arrayFromSet_def setAdd_def)
  have "dom (colorMap (sortedData example_proto)) = {''Shale''}"
    unfolding dom_colorMap s by (auto simp: example_proto_def)
  moreover have "colorMap (sortedData example_proto) ''__proto__'' = None"
      "colorMap (sortedData example_proto) ''Shale'' = Some ''#ec4899''"
    by (simp_all add: colorMap_def r propertySet_def colors_def)
  ultimately show ?thesis using r by simp
qed

text \<open>
  Claim C4. A missing or empty dataset gives the "No data to display" state, which
  carries no range, scale or layout; a dataset gives that state only when it is empty.
\<close>

theorem empty_input:
  "WellDataChart None = NoData \<and> (WellDataChart (Some data) = NoData) = (data = [])"
  by (simp add: WellDataChart_def Let_def)

theorem empty_input_witness:
  "WellDataChart (Some []) = NoData \<and> WellDataChart (Some example_one) \<noteq> NoData"
  using empty_input [of "[]"] empty_input [of example_one]
  by (simp add: example_one_def)




text \<open>
  Claim C6. The sorted array has non-decreasing depths, and for every depth the records
  of that depth appear in it in the order they have in the input (the sort is stable);
  it is a rearrangement of the input.
\<close>

theorem sortedData_stable:
  "sorted (map depth (sortedData data)) \<and>
   (\<forall>d. filter (\<lambda>p. depth p = d) (sortedData data) = filter (\<lambda>p. depth p = d) data) \<and>
   mset (sortedData data) = mset data"
  by (simp add: sortedData_sort_key sort_key_stable)

theorem sortedData_stable_witness:
  "sortedData example_ties_permuted = example_ties_permuted \<and>
   sorted (map depth (sortedData example_ties_permuted)) \<and>
   filter (\<lambda>p. depth p = 100) (sortedData example_ties_permuted) =
     [\<lparr>depth = 100, rockComposition = ''Sandstone'', DT = 90, GR = 60\<rparr>,
      \<lparr>depth = 100, rockComposition = ''Shale'', DT = 80, GR = 40\<rparr>]"
proof -
  have "sortedData example_ties_permuted = example_ties_permuted"
    by (simp add: example_ties_permuted_def sortedData_def arraySort_def compareDepth_def)
  moreover have "filter (\<lambda>p. depth p = 100) example_ties_permuted =
     [\<lparr>depth = 100, rockComposition = ''Sandstone'', DT = 90, GR = 60\<rparr>,
      \<lparr>depth = 100, rockComposition = ''Shale'', DT = 80, GR = 40\<rparr>]"
    by (simp add: example_ties_permuted_def)
  ultimately show ?thesis
    using sortedData_stable [of example_ties_permuted] by simp
qed

text \<open>
  Claim C7, as the code has it. For every dataset whose least depth is below its greatest
  depth (such a dataset is not empty) and whose depth range \<open>maxDepth - minDepth\<close> is a
  finite number, the depth scale sends the least depth to the top of the plot area,
  \<open>padding.top\<close>, and the greatest depth to its bottom, \<open>chartHeight - padding.bottom\<close>.
  Both values are exact in binary64 as well: the quotients are \<open>0 / r = 0\<close> and
  \<open>r / r = 1\<close>.
\<close>

theorem scaleDepth_endpoints:
  assumes "minDepth (sortedData data) < maxDepth (sortedData data)"
    and "depthRange (sortedData data) < PInf"
  shows "scaleDepth (sortedData data) (minDepth (sortedData data)) = Fin padding_top \<and>
         scaleDepth (sortedData data) (maxDepth (sortedData data)) = Fin (chartHeight - padding_bottom)"
proof -
  from assms obtain lo hi where r: "minDepth (sortedData data) = Fin lo"
      "maxDepth (sortedData data) = Fin hi" "lo < hi"
      "depthRange (sortedData data) = Fin (hi - lo)" "hi - lo < overflowThreshold"
    by (rule nondegenerate_depth)
  have "scaleDepth (sortedData data) (Fin lo) = Fin (padding_top + (lo - lo) / (hi - lo) * plotHeight)"
    using r by (intro scaleDepth_Fin) simp_all
  moreover have "scaleDepth (sortedData data) (Fin hi) = Fin (padding_top + (hi - lo) / (hi - lo) * plotHeight)"
    using r by (intro scaleDepth_Fin) simp_all
  ultimately show ?thesis
    using r(3) by (simp add: r(1,2) geometry_defs)
qed

theorem scaleDepth_endpoints_witness:
  "minDepth (sortedData example_two) < maxDepth (sortedData example_two) \<and>
   depthRange (sortedData example_two) < PInf \<and>
   scaleDepth (sortedData example_two) (minDepth (sortedData example_two)) = Fin 40 \<and>
   scaleDepth (sortedData example_two) (maxDepth (sortedData example_two)) = Fin 540"
proof -
  have h: "minDepth (sortedData example_two) < maxDepth (sortedData example_two)"
      "depthRange (sortedData example_two) < PInf"
    by (simp_all add: example_two_def eval_defs)
  from scaleDepth_endpoints [OF h] h show ?thesis
    by (simp add: geometry_defs)
qed

text \<open>
  Without the condition on the range the claim fails: for the depths \<open>-2^1023\<close> and
  \<open>2^1023\<close> the range overflows to \<open>Infinity\<close>, and the scaled greatest depth is
  \<open>40 + (Infinity / Infinity) * 500\<close>, which is \<open>NaN\<close>.
\<close>

theorem scaleDepth_endpoints_counterexample:
  "minDepth (sortedData example_overflow) < maxDepth (sortedData example_overflow) \<and>
   depthRange (sortedData example_overflow) = PInf \<and>
   scaleDepth (sortedData example_overflow) (maxDepth (sortedData example_overflow)) = NaN \<and>
   NaN \<noteq> Fin (chartHeight - padding_bottom)"
  using hugeDepth_pos by (simp add: example_overflow_facts less_jsnum_def)



text \<open>
  Claim C9 requires every measurement's category to be a key of the colour table and
  every bar to be filled with a palette colour. The fallback colour is indeed never used
  (\<open>bar_fill_cases\<close>), and every category other than \<open>__proto__\<close> has its palette
  colour; but for the category \<open>__proto__\<close> the table has no entry, the lookup finds the
  prototype object, which is truthy, and the bar's fill is that object.
\<close>

theorem bar_fill_proto:
  "rockComposition (sortedData example_proto ! 0) = ''__proto__'' \<and>
   rockComposition (sortedData example_proto ! 0) \<notin> dom (colorMap (sortedData example_proto)) \<and>
   bar_fill (rockBars (sortedData example_proto) ! 0) = JInherited ''__proto__'' \<and>
   bar_fill (rockBars (sortedData example_proto) ! 1) = JString ''#ec4899''"
proof -
  have s: "sortedData example_proto = example_proto"
    by (simp add: example_proto_def sortedData_def arraySort_def compareDepth_def)
  have r: "rockTypes example_proto = [''__proto__'', ''Shale'']"
    by (simp add: example_proto_def rockTypes_def arrayFromSet_def setAdd_def)
  have c: "colorMap example_proto ''__proto__'' = None"
      "colorMap example_proto ''Shale'' = Some ''#ec4899''"
    by (simp_all add: colorMap_def r propertySet_def colors_def)
  have p: "rockComposition (example_proto ! 0) = ''__proto__''"
      "rockComposition (example_proto ! Suc 0) = ''Shale''"
      "length example_proto = 2"
    by (simp_all add: example_proto_def)
  have "bar_fill (rockBarAt example_proto 0) = JInherited ''__proto__''"
    using bar_fill_cases(1) [of 0 example_proto] by (simp add: p)
  moreover have "bar_fill (rockBarAt example_proto (Suc 0)) = JString ''#ec4899''"
    using bar_fill_cases(1) [of "Suc 0" example_proto] by (simp add: p c)
  ultimately show ?thesis
    unfolding s by (simp add: rockBars_nth p c domIff)
qed

text \<open>
  Claim C10, as the code has it. When the greatest depth exceeds the least depth and the
  depth range \<open>maxDepth - minDepth\<close> is a finite number, the depth scale is monotone:
  \<open>d1 \<le> d2\<close> gives \<open>scaleDepth d1 \<le> scaleDepth d2\<close> (for all numbers, the infinities
  included, and through any overflow of an intermediate result). The bars are built over
  the array sorted by depth, so the height of every bar is a number that is at least 0.
\<close>

theorem scaleDepth_monotone:
  assumes "minDepth (sortedData data) < maxDepth (sortedData data)"
    and "depthRange (sortedData data) < PInf"
  shows "(\<forall>d1 d2. d1 \<le> d2 \<longrightarrow> scaleDepth (sortedData data) d1 \<le> scaleDepth (sortedData data) d2) \<and>
         (\<forall>b \<in> set (rockBars (sortedData data)). Fin 0 \<le> bar_height b)"
proof -
  from assms obtain lo hi where r: "minDepth (sortedData data) = Fin lo" "lo < hi"
      "depthRange (sortedData data) = Fin (hi - lo)"
    by (rule nondegenerate_depth)
  have "scaleDepth (sortedData data) d1 \<le> scaleDepth (sortedData data) d2" if "d1 \<le> d2" for d1 d2
    using r(1) r(3) _ that by (rule scaleDepth_mono) (simp add: r(2))
  moreover have "Fin 0 \<le> bar_height b" if "b \<in> set (rockBars (sortedData data))" for b
  proof -
    from that obtain i where "i < length (sortedData data)" "b = rockBarAt (sortedData data) i"
      by (auto simp: rockBars_def)
    then show ?thesis
      using bar_height_nonneg [OF assms sorted_sortedData] by simp
  qed
  ultimately show ?thesis by blast
qed

theorem scaleDepth_monotone_witness:
  "minDepth (sortedData example_three) < maxDepth (sortedData example_three) \<and>
   depthRange (sortedData example_three) < PInf \<and>
   Fin 104 \<le> Fin 150 \<and>
   scaleDepth (sortedData example_three) (Fin 104) = Fin 60 \<and>
   scaleDepth (sortedData example_three) (Fin 150) = Fin 290 \<and>
   scaleDepth (sortedData example_three) (Fin 104) \<le> scaleDepth (sortedData example_three) (Fin 150) \<and>
   bar_height (rockBars (sortedData example_three) ! 1) = Fin 480 \<and>
   Fin 0 \<le> bar_height (rockBars (sortedData example_three) ! 1)"
proof -
  note s = sortedData_example_three
  have h: "minDepth (sortedData example_three) < maxDepth (sortedData example_three)"
      "depthRange (sortedData example_three) < PInf"
    unfolding s by (simp_all add: eval_defs)
  have v: "scaleDepth (sortedData example_three) (Fin 104) = Fin 60"
      "scaleDepth (sortedData example_three) (Fin 150) = Fin 290"
    unfolding s by (simp_all add: eval_defs)
  have b: "rockBars (sortedData example_three) ! 1 \<in> set (rockBars (sortedData example_three))"
    by (rule nth_mem) (simp add: rockBars_def example_three_def)
  have bh: "bar_height (rockBars (sortedData example_three) ! 1) = Fin 480"
    unfolding s by (simp add: rockBars_def rockBarAt_def rockBar_y2_def Let_def eval_defs)
  have l: "Fin 104 \<le> Fin 150"
    by (simp add: less_eq_jsnum_def)
  from scaleDepth_monotone [OF h] b l h v bh show ?thesis
    by blast
qed

text \<open>
  Without the condition on the range the claim fails: for the depths \<open>-2^1023\<close> and
  \<open>2^1023\<close> the scaled greatest depth is \<open>NaN\<close>, which is not above the scaled least
  depth, and the height of the first bar is \<open>NaN\<close>, which is not at least 0.
\<close>

theorem scaleDepth_monotone_counterexample:
  "minDepth (sortedData example_overflow) < maxDepth (sortedData example_overflow) \<and>
   Fin (- hugeDepth) \<le> Fin hugeDepth \<and>
   \<not> scaleDepth (sortedData example_overflow) (Fin (- hugeDepth))
       \<le> scaleDepth (sortedData example_overflow) (Fin hugeDepth) \<and>
   bar_height (rockBars (sortedData example_overflow) ! 0) = NaN \<and>
   \<not> Fin 0 \<le> bar_height (rockBars (sortedData example_overflow) ! 0)"
proof -
  have d: "depth (example_overflow ! 0) = - hugeDepth" "depth (example_overflow ! Suc 0) = hugeDepth"
      "length example_overflow = 2"
    by (simp_all add: example_overflow_def)
  have "bar_height (rockBarAt example_overflow 0) = NaN"
    by (simp add: rockBarAt_height rockBarAt_y rockBar_y2_cases d example_overflow_facts
        minus_jsnum_def)
  then show ?thesis
    using hugeDepth_pos
    by (simp add: example_overflow_facts less_jsnum_def less_eq_jsnum_def rockBars_nth d)
qed

end
